theory Spec2Isabelle
  imports Complex_Main
begin

section \<open>Data model (src/shared/schema.ts)\<close>

text \<open>
  The rows of the \<^verbatim>\<open>bots\<close> and \<^verbatim>\<open>bot_messages\<close> tables. A nullable column is an
  \<open>option\<close>; a timestamp is the number of milliseconds since the epoch, as
  \<^verbatim>\<open>Date.getTime()\<close> returns it. The column \<^verbatim>\<open>id\<close> is called \<open>bot_id\<close> in a bot and
  \<open>message_id\<close> in a message, since record fields share one name space.
\<close>

record Bot =
  bot_id :: string
  name :: string
  description :: "string option"
  username :: string
  telegramToken :: string
  gptModel :: string
  personality :: "string option"
  temperature :: "string option"
  maxTokens :: "string option"
  isActive :: "bool option"
  createdAt :: "int option"
  userId :: "string option"

text \<open>\<^verbatim>\<open>InsertBot\<close>: the bot columns without id, createdAt and userId; columns with a
  default are optional.\<close>

record InsertBot =
  ins_name :: string
  ins_description :: "string option"
  ins_username :: string
  ins_telegramToken :: string
  ins_gptModel :: "string option"
  ins_personality :: "string option"
  ins_temperature :: "string option"
  ins_maxTokens :: "string option"
  ins_isActive :: "bool option"

record BotMessage =
  message_id :: string
  botId :: string
  message :: string
  response :: "string option"
  timestamp :: "int option"

record InsertBotMessage =
  ins_botId :: string
  ins_message :: string
  ins_response :: "string option"

text \<open>\<^verbatim>\<open>Partial<Bot>\<close>: an object holding some of the columns, one assignment per key.\<close>

datatype bot_update =
    Set_bot_id string
  | Set_name string
  | Set_description "string option"
  | Set_username string
  | Set_telegramToken string
  | Set_gptModel string
  | Set_personality "string option"
  | Set_temperature "string option"
  | Set_maxTokens "string option"
  | Set_isActive "bool option"
  | Set_createdAt "int option"
  | Set_userId "string option"

section \<open>JavaScript values used by the code\<close>

subsection \<open>Numbers, strings and truthiness\<close>

text \<open>A JavaScript number is \<open>NaN\<close> or a finite value (the infinities are not needed).\<close>

datatype jsnum = NaN | Num real

text \<open>Truthiness of the values the code tests with \<^verbatim>\<open>!x\<close>, \<^verbatim>\<open>x ? a : b\<close> and \<^verbatim>\<open>x || d\<close>.\<close>

definition truthy_str :: "string \<Rightarrow> bool" where
  "truthy_str s = (s \<noteq> [])"

definition truthy_bool_opt :: "bool option \<Rightarrow> bool" where
  "truthy_bool_opt b = (b = Some True)"

definition str_or :: "string option \<Rightarrow> string \<Rightarrow> string" where
  "str_or x d = (case x of None \<Rightarrow> d | Some s \<Rightarrow> if truthy_str s then s else d)"

definition str_or_null :: "string option \<Rightarrow> string option" where
  "str_or_null x = (case x of None \<Rightarrow> None | Some s \<Rightarrow> if truthy_str s then Some s else None)"

definition startsWith :: "string \<Rightarrow> string \<Rightarrow> bool" where
  "startsWith s p = (take (length p) s = p)"

text \<open>
  A string of the program is a sequence of UTF-16 code units. Here it is written as the
  bytes of its UTF-8 encoding (a lone surrogate as its three bytes), so \<^verbatim>\<open>s.length\<close> is not
  the number of bytes: a byte below 128 and the first byte of a sequence of two or three
  bytes count one unit, the first byte of a sequence of four bytes counts two (a surrogate
  pair), and a continuation byte (128 to 191) counts none.
\<close>

definition utf16_units :: "char \<Rightarrow> nat" where
  "utf16_units c =
     (let n = (of_char c :: nat)
      in if n < 128 then 1 else if n < 192 then 0 else if n < 240 then 1 else 2)"

definition js_length :: "string \<Rightarrow> nat" where
  "js_length s = sum_list (map utf16_units s)"

subsection \<open>\<^verbatim>\<open>parseInt\<close> with one argument\<close>

text \<open>
  Leading white space is skipped, then an optional sign, then an optional \<^verbatim>\<open>0x\<close> prefix
  that selects radix 16; the longest run of digits of the radix is the value, and no digit
  at all gives \<open>NaN\<close>. Strings are byte strings here, so only the ASCII white space is
  known.
\<close>

definition js_whitespace :: "char \<Rightarrow> bool" where
  "js_whitespace c = (c \<in> set [CHR 0x09, CHR 0x0A, CHR 0x0B, CHR 0x0C, CHR 0x0D, CHR 0x20])"

definition digit_value :: "char \<Rightarrow> nat option" where
  "digit_value c =
     (let n = (of_char c :: nat)
      in if 48 \<le> n \<and> n \<le> 57 then Some (n - 48)
         else if 97 \<le> n \<and> n \<le> 122 then Some (n - 87)
         else if 65 \<le> n \<and> n \<le> 90 then Some (n - 55)
         else None)"

definition is_digit :: "nat \<Rightarrow> char \<Rightarrow> bool" where
  "is_digit radix c = (case digit_value c of None \<Rightarrow> False | Some d \<Rightarrow> d < radix)"

definition parseInt :: "string \<Rightarrow> jsnum" where
  "parseInt input =
     (let s0 = dropWhile js_whitespace input;
          neg = (take 1 s0 = ''-'');
          s1 = (if take 1 s0 = ''-'' \<or> take 1 s0 = ''+'' then drop 1 s0 else s0);
          hex = (take 2 s1 = ''0x'' \<or> take 2 s1 = ''0X'');
          radix = (if hex then 16 else 10);
          s2 = (if hex then drop 2 s1 else s1);
          ds = takeWhile (is_digit radix) s2;
          v = foldl (\<lambda>a c. a * radix + (case digit_value c of None \<Rightarrow> 0 | Some d \<Rightarrow> d)) 0 ds
      in if ds = [] then NaN
         else Num (if neg then - real v else real v))"

subsection \<open>Untyped values\<close>

text \<open>
  At run time the arguments of a call are untyped. \<open>js_get\<close> reads a property:
  reading one of \<^verbatim>\<open>undefined\<close> or \<^verbatim>\<open>null\<close> throws a \<^verbatim>\<open>TypeError\<close> (\<open>None\<close>), reading a
  name an object does not have gives \<^verbatim>\<open>undefined\<close>. The names the code reads
  (\<^verbatim>\<open>model\<close>, \<^verbatim>\<open>temperature\<close>, \<^verbatim>\<open>maxTokens\<close>, \<^verbatim>\<open>systemPrompt\<close>, \<^verbatim>\<open>history\<close>, \<^verbatim>\<open>message\<close>)
  are no members of the prototypes of strings, numbers, booleans or arrays.
\<close>

datatype jsval =
    JUndefined
  | JNull
  | JBool bool
  | JNumber jsnum
  | JString string
  | JArray "jsval list"
  | JObject "(string \<times> jsval) list"

definition object_get :: "(string \<times> jsval) list \<Rightarrow> string \<Rightarrow> jsval" where
  "object_get kvs k = (case map_of kvs k of None \<Rightarrow> JUndefined | Some v \<Rightarrow> v)"

fun js_get :: "jsval \<Rightarrow> string \<Rightarrow> jsval option" where
  "js_get JUndefined k = None"
| "js_get JNull k = None"
| "js_get (JObject kvs) k = Some (object_get kvs k)"
| "js_get (JString s) k = Some JUndefined"
| "js_get (JBool b) k = Some JUndefined"
| "js_get (JNumber n) k = Some JUndefined"
| "js_get (JArray xs) k = Some JUndefined"

text \<open>
  The spread \<^verbatim>\<open>...v\<close> inside an array literal: an array gives its elements, a string
  its characters, and every value that is not iterable throws a \<^verbatim>\<open>TypeError\<close> (\<open>None\<close>).
\<close>

fun js_spread :: "jsval \<Rightarrow> jsval list option" where
  "js_spread (JArray xs) = Some xs"
| "js_spread (JString s) = Some (map (\<lambda>c. JString [c]) s)"
| "js_spread JUndefined = None"
| "js_spread JNull = None"
| "js_spread (JBool b) = None"
| "js_spread (JNumber n) = None"
| "js_spread (JObject kvs) = None"

text \<open>The \<open>n\<close>-th argument of a call: a missing one is \<^verbatim>\<open>undefined\<close>.\<close>

definition arg :: "jsval list \<Rightarrow> nat \<Rightarrow> jsval" where
  "arg args n = (if n < length args then args ! n else JUndefined)"

section \<open>OpenAIService (module \<^verbatim>\<open>./services/openai\<close>; in src/server/services/githubService.ts, lines 197 to 284)\<close>

text \<open>
  The request handed to \<^verbatim>\<open>openai.chat.completions.create\<close>, and what comes back: the call
  throws (\<open>ApiError\<close>) or returns the \<^verbatim>\<open>message.content\<close> of each choice, which may be
  \<^verbatim>\<open>null\<close>. The upstream service is a parameter.
\<close>

record completion_request =
  req_model :: jsval
  req_messages :: "jsval list"
  req_temperature :: jsval
  req_max_tokens :: jsval

datatype completion_result = ApiError | Completion "string option list"

type_synonym openai = "completion_request \<Rightarrow> completion_result"

text \<open>\<^verbatim>\<open>new Error("Failed to generate response from GPT")\<close>.\<close>

datatype gen_error = GenerationError

definition chat_message :: "string \<Rightarrow> jsval \<Rightarrow> jsval" where
  "chat_message role content = JObject [(''role'', JString role), (''content'', content)]"

text \<open>The two fallback texts of the source; the second one is Russian, given by its
  UTF-8 bytes.\<close>

definition fallback_first :: string where
  "fallback_first = ''I'm so'' @ ''rry, I couldn't generate a response.''"

definition fallback_second :: string where
  "fallback_second = map char_of
     [208, 152, 208, 183, 208, 178, 208, 184, 208, 189, 208, 184, 209, 130, 208, 181, 44, 32,
      208, 189, 208, 181, 32, 209, 131, 208, 180, 208, 176, 208, 187, 208, 190, 209, 129, 209,
      140, 32, 209, 129, 208, 179, 208, 181, 208, 189, 208, 181, 209, 128, 208, 184, 209, 128,
      208, 190, 208, 178, 208, 176, 209, 130, 209, 140, 32, 208, 190, 209, 130, 208, 178, 208,
      181, 209, 130, 46 :: nat]"

text \<open>
  The end of both \<^verbatim>\<open>generateResponse\<close> bodies:
  \<^verbatim>\<open>return response.choices[0].message.content || fallback\<close> inside the \<^verbatim>\<open>try\<close>. A thrown
  call and a missing first choice both reach the \<^verbatim>\<open>catch\<close>, which throws the error.
\<close>

definition content_or_fallback :: "completion_result \<Rightarrow> string \<Rightarrow> gen_error + string" where
  "content_or_fallback res fallback =
     (case res of
        ApiError \<Rightarrow> Inl GenerationError
      | Completion choices \<Rightarrow>
          (case choices of
             [] \<Rightarrow> Inl GenerationError
           | c # _ \<Rightarrow> Inr (str_or c fallback)))"

text \<open>A method takes the upstream service and the arguments of the call; it returns its
  result and the requests it has sent.\<close>

type_synonym js_method = "openai \<Rightarrow> jsval list \<Rightarrow> (gen_error + string) \<times> completion_request list"

text \<open>The first definition: \<^verbatim>\<open>generateResponse(message, personality, config)\<close>.\<close>

definition request_first :: "jsval \<Rightarrow> jsval \<Rightarrow> jsval \<Rightarrow> jsval \<Rightarrow> jsval \<Rightarrow> completion_request" where
  "request_first msg pers m t mt =
     \<lparr> req_model = m,
       req_messages = [chat_message ''system'' pers, chat_message ''user'' msg],
       req_temperature = t,
       req_max_tokens = mt \<rparr>"

definition generateResponse_first :: js_method where
  "generateResponse_first openai args =
     (let msg = arg args 0; pers = arg args 1; config = arg args 2
      in case (js_get config ''model'', js_get config ''temperature'', js_get config ''maxTokens'') of
           (Some m, Some t, Some mt) \<Rightarrow>
             (let req = request_first msg pers m t mt
              in (content_or_fallback (openai req) fallback_first, [req]))
         | _ \<Rightarrow> (Inl GenerationError, []))"

text \<open>The second definition: \<^verbatim>\<open>generateResponse(chatParams)\<close>, with the model, the
  temperature and the length written into the request.\<close>

definition request_second :: "jsval \<Rightarrow> jsval list \<Rightarrow> jsval \<Rightarrow> completion_request" where
  "request_second sp hist msg =
     \<lparr> req_model = JString ''gpt-4o'',
       req_messages = [chat_message ''system'' sp] @ hist @ [chat_message ''user'' msg],
       req_temperature = JNumber (Num 0.7),
       req_max_tokens = JNumber (Num 500) \<rparr>"

definition generateResponse_second :: js_method where
  "generateResponse_second openai args =
     (let chatParams = arg args 0
      in case (js_get chatParams ''systemPrompt'', js_get chatParams ''history'', js_get chatParams ''message'') of
           (Some sp, Some h, Some msg) \<Rightarrow>
             (case js_spread h of
                None \<Rightarrow> (Inl GenerationError, [])
              | Some hist \<Rightarrow>
                  (let req = request_second sp hist msg
                   in (content_or_fallback (openai req) fallback_second, [req])))
         | _ \<Rightarrow> (Inl GenerationError, []))"

text \<open>
  The class body of \<^verbatim>\<open>OpenAIService\<close> defines the name \<^verbatim>\<open>generateResponse\<close> twice. A class
  body is evaluated from top to bottom and each method definition stores its function
  under its name on the prototype, so the definition that comes last is the one a call
  finds.
\<close>

definition OpenAIService_methods :: "(string \<times> js_method) list" where
  "OpenAIService_methods =
     [(''generateResponse'', generateResponse_first),
      (''generateResponse'', generateResponse_second)]"

definition prototype_lookup :: "(string \<times> 'm) list \<Rightarrow> string \<Rightarrow> 'm option" where
  "prototype_lookup defs nm = map_of (rev defs) nm"

definition openaiService_generateResponse :: js_method where
  "openaiService_generateResponse openai args =
     (case prototype_lookup OpenAIService_methods ''generateResponse'' of
        Some m \<Rightarrow> m openai args
      | None \<Rightarrow> (Inl GenerationError, []))"

section \<open>The platform transport and the application state\<close>

text \<open>
  What the messaging platform answers is not code of the repository: it is a parameter.
  Each field says whether the call with that token resolves (\<open>True\<close>) or throws.
\<close>

record telegram_env =
  getMe_ok :: "string \<Rightarrow> bool"
  startPolling_ok :: "string \<Rightarrow> bool"
  stopPolling_ok :: "string \<Rightarrow> bool"
  sendMessage_ok :: "string \<Rightarrow> int \<Rightarrow> string \<Rightarrow> bool"

text \<open>A \<^verbatim>\<open>TelegramBot\<close> object: the client built from a token.\<close>

datatype TelegramBot = TelegramBot (client_token: string)

text \<open>Every call that leaves the process is appended to a log, in order.\<close>

datatype net_event =
    TgGetMe string
  | TgStartPolling string
  | TgStopPolling string
  | TgSendMessage string int string
  | OpenAIChat completion_request

text \<open>
  \<open>storage_bots\<close> and \<open>storage_botMessages\<close> are the maps of \<^verbatim>\<open>MemStorage\<close>,
  \<open>telegram_bots\<close> is the map of live clients of \<^verbatim>\<open>TelegramService\<close>. The message map keeps
  its entries in insertion order, which is the order \<^verbatim>\<open>Map.values()\<close> iterates in.
\<close>

record app_state =
  storage_bots :: "string \<rightharpoonup> Bot"
  storage_botMessages :: "(string \<times> BotMessage) list"
  telegram_bots :: "string \<rightharpoonup> TelegramBot"
  net :: "net_event list"

section \<open>MemStorage (src/server/storage.ts)\<close>

text \<open>\<^verbatim>\<open>Map.set\<close>: a known key keeps its position, a new key goes to the end.\<close>

fun map_set :: "('k \<times> 'v) list \<Rightarrow> 'k \<Rightarrow> 'v \<Rightarrow> ('k \<times> 'v) list" where
  "map_set [] k v = [(k, v)]"
| "map_set ((k', v') # kvs) k v =
     (if k' = k then (k, v) # kvs else (k', v') # map_set kvs k v)"

definition getBot :: "app_state \<Rightarrow> string \<Rightarrow> Bot option" where
  "getBot s i = storage_bots s i"

text \<open>\<^verbatim>\<open>storage.createBot\<close>; \<open>newId\<close> is what \<^verbatim>\<open>randomUUID()\<close> returns and \<open>now\<close> what
  \<^verbatim>\<open>new Date()\<close> returns.\<close>

definition storage_createBot :: "InsertBot \<Rightarrow> string \<Rightarrow> string \<Rightarrow> int \<Rightarrow> app_state \<Rightarrow> Bot \<times> app_state" where
  "storage_createBot insertBot uid newId now s =
     (let b = \<lparr> bot_id = newId,
                  name = ins_name insertBot,
                  description = str_or_null (ins_description insertBot),
                  username = ins_username insertBot,
                  telegramToken = ins_telegramToken insertBot,
                  gptModel = str_or (ins_gptModel insertBot) ''gpt-5'',
                  personality = str_or_null (ins_personality insertBot),
                  temperature = Some (str_or (ins_temperature insertBot) ''0.7''),
                  maxTokens = Some (str_or (ins_maxTokens insertBot) ''150''),
                  isActive = Some (truthy_bool_opt (ins_isActive insertBot)),
                  createdAt = Some now,
                  userId = Some uid \<rparr>
      in (b, s\<lparr>storage_bots := (storage_bots s)(newId \<mapsto> b)\<rparr>))"

fun apply_update :: "bot_update \<Rightarrow> Bot \<Rightarrow> Bot" where
  "apply_update (Set_bot_id v) b = b\<lparr>bot_id := v\<rparr>"
| "apply_update (Set_name v) b = b\<lparr>name := v\<rparr>"
| "apply_update (Set_description v) b = b\<lparr>description := v\<rparr>"
| "apply_update (Set_username v) b = b\<lparr>username := v\<rparr>"
| "apply_update (Set_telegramToken v) b = b\<lparr>telegramToken := v\<rparr>"
| "apply_update (Set_gptModel v) b = b\<lparr>gptModel := v\<rparr>"
| "apply_update (Set_personality v) b = b\<lparr>personality := v\<rparr>"
| "apply_update (Set_temperature v) b = b\<lparr>temperature := v\<rparr>"
| "apply_update (Set_maxTokens v) b = b\<lparr>maxTokens := v\<rparr>"
| "apply_update (Set_isActive v) b = b\<lparr>isActive := v\<rparr>"
| "apply_update (Set_createdAt v) b = b\<lparr>createdAt := v\<rparr>"
| "apply_update (Set_userId v) b = b\<lparr>userId := v\<rparr>"

text \<open>\<^verbatim>\<open>storage.updateBot\<close>: a missing id changes nothing and returns \<^verbatim>\<open>undefined\<close>.\<close>

definition updateBot :: "string \<Rightarrow> bot_update list \<Rightarrow> app_state \<Rightarrow> Bot option \<times> app_state" where
  "updateBot i updates s =
     (case storage_bots s i of
        None \<Rightarrow> (None, s)
      | Some b \<Rightarrow>
          (let updatedBot = fold apply_update updates b
           in (Some updatedBot, s\<lparr>storage_bots := (storage_bots s)(i \<mapsto> updatedBot)\<rparr>)))"

text \<open>\<^verbatim>\<open>storage.deleteBot\<close>: \<^verbatim>\<open>Map.delete\<close> says whether the key was there.\<close>

definition deleteBot :: "string \<Rightarrow> app_state \<Rightarrow> bool \<times> app_state" where
  "deleteBot i s =
     (storage_bots s i \<noteq> None, s\<lparr>storage_bots := (storage_bots s)(i := None)\<rparr>)"

text \<open>
  \<^verbatim>\<open>storage.createBotMessage\<close>; \<open>newId\<close> and \<open>now\<close> are the results of \<^verbatim>\<open>randomUUID()\<close>
  and \<^verbatim>\<open>new Date()\<close>.
\<close>

definition createBotMessage :: "InsertBotMessage \<Rightarrow> string \<Rightarrow> int \<Rightarrow> app_state \<Rightarrow> BotMessage \<times> app_state" where
  "createBotMessage insertMessage newId now s =
     (let m = \<lparr> message_id = newId,
                  botId = ins_botId insertMessage,
                  message = ins_message insertMessage,
                  response = str_or_null (ins_response insertMessage),
                  timestamp = Some now \<rparr>
      in (m, s\<lparr>storage_botMessages := map_set (storage_botMessages s) newId m\<rparr>))"

text \<open>The sort key \<^verbatim>\<open>m.timestamp?.getTime() || 0\<close>.\<close>

definition timestamp_key :: "BotMessage \<Rightarrow> int" where
  "timestamp_key m = (case timestamp m of None \<Rightarrow> 0 | Some t \<Rightarrow> if t \<noteq> 0 then t else 0)"

text \<open>
  \<^verbatim>\<open>.sort((a, b) => key(b) - key(a))\<close>: \<^verbatim>\<open>Array.prototype.sort\<close> is a stable sort, so the
  result is the one list that is ordered by decreasing key and keeps elements of equal
  key in their former order. \<open>sort_key\<close> is a stable sort as well.
\<close>

definition sort_newest_first :: "BotMessage list \<Rightarrow> BotMessage list" where
  "sort_newest_first ms = sort_key (\<lambda>m. - timestamp_key m) ms"

text \<open>
  \<^verbatim>\<open>.slice(0, n)\<close>: the end index is \<open>n\<close> truncated towards zero, \<open>NaN\<close> counting as 0; a
  negative end counts from the end of the array.
\<close>

definition js_trunc :: "real \<Rightarrow> int" where
  "js_trunc r = (if r < 0 then \<lceil>r\<rceil> else \<lfloor>r\<rfloor>)"

definition slice0 :: "'a list \<Rightarrow> jsnum \<Rightarrow> 'a list" where
  "slice0 xs n =
     (case n of
        NaN \<Rightarrow> []
      | Num r \<Rightarrow>
          (let k = js_trunc r
           in if k < 0 then take (nat (int (length xs) + k)) xs else take (nat k) xs))"

text \<open>\<^verbatim>\<open>storage.getBotMessages(botId, limit = 50)\<close>: \<open>None\<close> is the omitted argument.\<close>

definition getBotMessages :: "app_state \<Rightarrow> string \<Rightarrow> jsnum option \<Rightarrow> BotMessage list" where
  "getBotMessages s i limit =
     slice0
       (sort_newest_first (filter (\<lambda>m. botId m = i) (map snd (storage_botMessages s))))
       (case limit of None \<Rightarrow> Num 50 | Some l \<Rightarrow> l)"

section \<open>TelegramService (module \<^verbatim>\<open>./services/telegram\<close>; in src/server/routes.ts, lines 463 to 630)\<close>

text \<open>The format test at the head of \<^verbatim>\<open>createBot\<close>, negated: the token is non-empty, starts
  with \<^verbatim>\<open>bot\<close> and \<^verbatim>\<open>token.length\<close> is at least 20.\<close>

definition token_format_ok :: "string \<Rightarrow> bool" where
  "token_format_ok token =
     (\<not> (\<not> truthy_str token \<or> \<not> startsWith token ''bot'' \<or> js_length token < 20))"

text \<open>
  \<^verbatim>\<open>TelegramService.createBot\<close>. Building the client with \<^verbatim>\<open>autoStart: false\<close> sends nothing;
  \<^verbatim>\<open>getMe\<close> and \<^verbatim>\<open>startPolling\<close> are the two calls that can throw into the \<^verbatim>\<open>catch\<close>.
\<close>

definition telegram_createBot :: "telegram_env \<Rightarrow> string \<Rightarrow> string \<Rightarrow> app_state \<Rightarrow> bool \<times> app_state" where
  "telegram_createBot env i token s =
     (if \<not> token_format_ok token
      then (False, snd (updateBot i [Set_isActive (Some False)] s))
      else
        (let client = TelegramBot token;
             s1 = s\<lparr>net := net s @ [TgGetMe token]\<rparr>
         in if \<not> getMe_ok env token
            then (False, snd (updateBot i [Set_isActive (Some False)] s1))
            else
              (let s2 = s1\<lparr>net := net s1 @ [TgStartPolling token]\<rparr>
               in if \<not> startPolling_ok env token
                  then (False, snd (updateBot i [Set_isActive (Some False)] s2))
                  else
                    (let s3 = s2\<lparr>telegram_bots := (telegram_bots s2)(i \<mapsto> client)\<rparr>
                     in (True, snd (updateBot i [Set_isActive (Some True)] s3))))))"

text \<open>
  \<^verbatim>\<open>TelegramService.stopBot\<close>. Whether \<^verbatim>\<open>stopPolling\<close> resolves or throws only decides a
  console line: both paths go on to delete the client and update the store.
\<close>

definition stopBot :: "telegram_env \<Rightarrow> string \<Rightarrow> app_state \<Rightarrow> bool \<times> app_state" where
  "stopBot env i s =
     (case telegram_bots s i of
        Some client \<Rightarrow>
          (let s1 = s\<lparr>net := net s @ [TgStopPolling (client_token client)]\<rparr>;
               s2 = (if stopPolling_ok env (client_token client) then s1 else s1);
               s3 = s2\<lparr>telegram_bots := (telegram_bots s2)(i := None)\<rparr>
           in (True, snd (updateBot i [Set_isActive (Some False)] s3)))
      | None \<Rightarrow> (False, s))"

text \<open>An inbound update of the platform: \<^verbatim>\<open>msg.chat.id\<close> and \<^verbatim>\<open>msg.text\<close>.\<close>

record tg_message =
  chat_id :: int
  text_of :: "string option"

definition apology :: string where
  "apology = ''So'' @ ''rry, I encountered an error processing your message.''"

definition send_apology :: "TelegramBot \<Rightarrow> int \<Rightarrow> app_state \<Rightarrow> app_state" where
  "send_apology client chatId s = s\<lparr>net := net s @ [TgSendMessage (client_token client) chatId apology]\<rparr>"

text \<open>
  \<^verbatim>\<open>TelegramService.handleMessage\<close>. \<open>parseFloat\<close> is the built-in function, a parameter;
  \<open>fresh1\<close> and \<open>fresh2\<close> are the id and the time of the two records. Every failure inside
  the \<^verbatim>\<open>try\<close> goes to the \<^verbatim>\<open>catch\<close>, which sends the apology.
\<close>

definition handleMessage ::
    "telegram_env \<Rightarrow> openai \<Rightarrow> (string \<Rightarrow> jsnum) \<Rightarrow> string \<Rightarrow> TelegramBot \<Rightarrow> tg_message
       \<Rightarrow> string \<times> int \<Rightarrow> string \<times> int \<Rightarrow> app_state \<Rightarrow> app_state" where
  "handleMessage env openai parseFloat i client msg fresh1 fresh2 s =
     (let chatId = chat_id msg
      in case str_or_null (text_of msg) of
           None \<Rightarrow> s
         | Some userMessage \<Rightarrow>
             (case getBot s i of
                None \<Rightarrow> s
              | Some botConfig \<Rightarrow>
                  (let s1 = snd (createBotMessage
                                  \<lparr> ins_botId = i, ins_message = userMessage, ins_response = None \<rparr>
                                  (fst fresh1) (snd fresh1) s);
                       (r, reqs) =
                         openaiService_generateResponse openai
                           [JString userMessage,
                            JString (str_or (personality botConfig) ''You are a helpful assistant.''),
                            JObject
                              [(''model'', JString (str_or (Some (gptModel botConfig)) ''gpt-5'')),
                               (''temperature'', JNumber (parseFloat (str_or (temperature botConfig) ''0.7''))),
                               (''maxTokens'', JNumber (parseInt (str_or (maxTokens botConfig) ''150'')))]];
                       s2 = s1\<lparr>net := net s1 @ map OpenAIChat reqs\<rparr>
                   in case r of
                        Inl e \<Rightarrow> send_apology client chatId s2
                      | Inr reply \<Rightarrow>
                          (let s3 = s2\<lparr>net := net s2 @ [TgSendMessage (client_token client) chatId reply]\<rparr>
                           in if \<not> sendMessage_ok env (client_token client) chatId reply
                              then send_apology client chatId s3
                              else snd (createBotMessage
                                          \<lparr> ins_botId = i, ins_message = userMessage, ins_response = Some reply \<rparr>
                                          (fst fresh2) (snd fresh2) s3)))))"

section \<open>HTTP handlers (src/server/routes.ts, lines 1 to 462)\<close>

datatype json_body =
    BotJson Bot
  | BotOrUndefinedJson "Bot option"
  | MessagesJson "BotMessage list"
  | MessageJson string
  | ValidationJson string "string list"

datatype http_response = Response (status: nat) (body: json_body)

text \<open>
  \<^verbatim>\<open>POST /api/bots\<close>. \<open>parsed\<close> is the outcome of \<^verbatim>\<open>insertBotSchema.parse(req.body)\<close>: the
  issues of a \<^verbatim>\<open>ZodError\<close>, or the validated bot.
\<close>

definition post_api_bots ::
    "telegram_env \<Rightarrow> string list + InsertBot \<Rightarrow> string \<Rightarrow> int \<Rightarrow> app_state \<Rightarrow> http_response \<times> app_state" where
  "post_api_bots env parsed newId now s =
     (case parsed of
        Inl errors \<Rightarrow> (Response 400 (ValidationJson ''Invalid bot configuration'' errors), s)
      | Inr validatedBot \<Rightarrow>
          (let uid = ''demo-user'';
               (b, s1) = storage_createBot validatedBot uid newId now s;
               (success, s2) = telegram_createBot env (bot_id b) (ins_telegramToken validatedBot) s1
           in if \<not> success
              then (Response 400 (MessageJson ''Failed to initialize Telegram bot. Please check your token.''),
                    snd (deleteBot (bot_id b) s2))
              else (Response 201 (BotJson b), s2)))"

text \<open>\<^verbatim>\<open>POST /api/bots/:id/toggle\<close>; \<open>env\<close> is what the platform answers during this request.\<close>

definition post_toggle :: "telegram_env \<Rightarrow> string \<Rightarrow> app_state \<Rightarrow> http_response \<times> app_state" where
  "post_toggle env i s =
     (case getBot s i of
        None \<Rightarrow> (Response 404 (MessageJson ''Bot not found''), s)
      | Some b \<Rightarrow>
          (let (success, s1) =
                 (if truthy_bool_opt (isActive b)
                  then stopBot env (bot_id b) s
                  else telegram_createBot env (bot_id b) (telegramToken b) s)
           in if success
              then (let (updatedBot, s2) =
                          updateBot (bot_id b) [Set_isActive (Some (\<not> truthy_bool_opt (isActive b)))] s1
                    in (Response 200 (BotOrUndefinedJson updatedBot), s2))
              else (Response 500 (MessageJson ''Failed to toggle bot status''), s1)))"

text \<open>
  \<^verbatim>\<open>GET /api/bots/:id/messages\<close>; \<open>q\<close> is \<^verbatim>\<open>req.query.limit\<close>, \<open>None\<close> when the query has no
  such parameter. The store never throws, so the \<^verbatim>\<open>catch\<close> is not reached.
\<close>

definition query_limit :: "string option \<Rightarrow> jsnum" where
  "query_limit q =
     (case q of
        None \<Rightarrow> Num 50
      | Some v \<Rightarrow> if truthy_str v then parseInt v else Num 50)"

definition get_messages :: "string \<Rightarrow> string option \<Rightarrow> app_state \<Rightarrow> http_response" where
  "get_messages i q s =
     (let limit = query_limit q;
          messages = getBotMessages s i (Some limit)
      in Response 200 (MessagesJson messages))"

text \<open>
  \<^verbatim>\<open>PATCH /api/bots/:id\<close>. \<^verbatim>\<open>updates.telegramToken\<close> is the value the body gives that key, if
  it has the key; the client is restarted when that value is truthy.
\<close>

definition updates_telegramToken :: "bot_update list \<Rightarrow> string option" where
  "updates_telegramToken updates =
     (case [v. Set_telegramToken v \<leftarrow> updates] of [] \<Rightarrow> None | ts \<Rightarrow> Some (last ts))"

definition patch_bot :: "telegram_env \<Rightarrow> string \<Rightarrow> bot_update list \<Rightarrow> app_state \<Rightarrow> http_response \<times> app_state" where
  "patch_bot env i updates s =
     (case updateBot i updates s of
        (None, s1) \<Rightarrow> (Response 404 (MessageJson ''Bot not found''), s1)
      | (Some b, s1) \<Rightarrow>
          (case str_or_null (updates_telegramToken updates) of
             None \<Rightarrow> (Response 200 (BotJson b), s1)
           | Some token \<Rightarrow>
               (let s2 = snd (stopBot env (bot_id b) s1);
                    s3 = snd (telegram_createBot env (bot_id b) token s2)
                in (Response 200 (BotJson b), s3))))"

section \<open>GitHubService (src/server/services/githubService.ts, lines 1 to 197)\<close>

text \<open>
  A request as \<^verbatim>\<open>makeRequest\<close> builds it, and what \<^verbatim>\<open>fetch\<close> gives: the promise rejects,
  or a response arrives with its \<^verbatim>\<open>ok\<close> flag, its status, its text and its body read as
  JSON (\<open>None\<close> when the body is no JSON). The hosting service is a parameter: \<open>fetch\<close>
  answers a request in a state \<open>'w\<close> of the remote side and gives the next state.
\<close>

record github_request =
  gh_method :: string
  gh_url :: string
  gh_headers :: "(string \<times> string) list"
  gh_body :: "(string \<times> string) list"

datatype fetch_result =
    FetchRejected
  | FetchResponse (resp_ok: bool) (resp_status: nat) (resp_text: string) (resp_json: "jsval option")

record 'w github_world =
  remote :: 'w
  requests :: "github_request list"

datatype github_error =
    FetchError
  | GitHubApiError nat string
  | JsonError
  | CreateOrUpdateError
  | SyncError

definition makeRequest ::
    "(github_request \<Rightarrow> 'w \<Rightarrow> fetch_result \<times> 'w) \<Rightarrow> string \<Rightarrow> string \<Rightarrow> string \<Rightarrow> (string \<times> string) list
       \<Rightarrow> 'w github_world \<Rightarrow> (github_error + jsval) \<times> 'w github_world" where
  "makeRequest fetch url token method body_fields w =
     (let req = \<lparr> gh_method = method,
                    gh_url = ''https://api.github.com'' @ url,
                    gh_headers = [(''Authorization'', ''token '' @ token),
                                  (''Accept'', ''application/vnd.github.v3+json''),
                                  (''Content-Type'', ''application/json'')],
                    gh_body = body_fields \<rparr>;
          (res, r') = fetch req (remote w);
          w' = \<lparr> remote = r', requests = requests w @ [req] \<rparr>
      in case res of
           FetchRejected \<Rightarrow> (Inl FetchError, w')
         | FetchResponse ok st txt js \<Rightarrow>
             if \<not> ok then (Inl (GitHubApiError st txt), w')
             else (case js of None \<Rightarrow> (Inl JsonError, w') | Some j \<Rightarrow> (Inr j, w')))"

text \<open>
  \<^verbatim>\<open>createOrUpdateFile\<close>. \<open>btoa\<close> is the built-in function, a parameter: it throws
  (\<open>None\<close>) on a character above 255, inside the \<^verbatim>\<open>try\<close>. Every failure is thrown on as
  one error.
\<close>

definition createOrUpdateFile ::
    "(github_request \<Rightarrow> 'w \<Rightarrow> fetch_result \<times> 'w) \<Rightarrow> (string \<Rightarrow> string option) \<Rightarrow> string \<Rightarrow> string \<Rightarrow> string
       \<Rightarrow> string \<Rightarrow> string \<Rightarrow> string option \<Rightarrow> 'w github_world \<Rightarrow> (github_error + unit) \<times> 'w github_world" where
  "createOrUpdateFile fetch btoa repoFullName filePath content commit token sha w =
     (case btoa content of
        None \<Rightarrow> (Inl CreateOrUpdateError, w)
      | Some encoded \<Rightarrow>
          (let body_fields =
                 [(''message'', commit), (''content'', encoded)]
                 @ (case str_or_null sha of None \<Rightarrow> [] | Some h \<Rightarrow> [(''sha'', h)])
           in case makeRequest fetch (''/repos/'' @ repoFullName @ ''/contents/'' @ filePath)
                     token ''PUT'' body_fields w of
                (Inl e, w') \<Rightarrow> (Inl CreateOrUpdateError, w')
              | (Inr j, w') \<Rightarrow> (Inr (), w')))"

text \<open>The commit text of a synced file: a Russian sentence around the path, given by
  its UTF-8 bytes.\<close>

definition commit_text :: "string \<Rightarrow> string" where
  "commit_text p =
     map char_of [208, 158, 208, 177, 208, 189, 208, 190, 208, 178, 208, 187, 208, 181, 208, 189,
                  208, 184, 208, 181, 32 :: nat]
     @ p
     @ map char_of [32, 209, 135, 208, 181, 209, 128, 208, 181, 208, 183, 32, 65, 73, 32, 208,
                    191, 208, 190, 208, 188, 208, 190, 209, 137, 208, 189, 208, 184, 208, 186,
                    208, 176 :: nat]"

record sync_file =
  file_path :: string
  file_content :: string

text \<open>The \<^verbatim>\<open>for ... of\<close> loop of \<^verbatim>\<open>syncProjectToGitHub\<close>: the first write that throws ends
  the loop.\<close>

fun sync_loop ::
    "(github_request \<Rightarrow> 'w \<Rightarrow> fetch_result \<times> 'w) \<Rightarrow> (string \<Rightarrow> string option) \<Rightarrow> string \<Rightarrow> string
       \<Rightarrow> sync_file list \<Rightarrow> 'w github_world \<Rightarrow> (github_error + unit) \<times> 'w github_world" where
  "sync_loop fetch btoa repoFullName token [] w = (Inr (), w)"
| "sync_loop fetch btoa repoFullName token (f # fs) w =
     (case createOrUpdateFile fetch btoa repoFullName (file_path f) (file_content f)
             (commit_text (file_path f)) token None w of
        (Inl e, w') \<Rightarrow> (Inl e, w')
      | (Inr u, w') \<Rightarrow> sync_loop fetch btoa repoFullName token fs w')"

definition syncProjectToGitHub ::
    "(github_request \<Rightarrow> 'w \<Rightarrow> fetch_result \<times> 'w) \<Rightarrow> (string \<Rightarrow> string option) \<Rightarrow> string
       \<Rightarrow> sync_file list \<Rightarrow> string \<Rightarrow> 'w github_world \<Rightarrow> (github_error + unit) \<times> 'w github_world" where
  "syncProjectToGitHub fetch btoa repoFullName files token w =
     (case sync_loop fetch btoa repoFullName token files w of
        (Inl e, w') \<Rightarrow> (Inl SyncError, w')
      | (Inr u, w') \<Rightarrow> (Inr u, w'))"

subsection \<open>What the hosting service is asked, and what it answers\<close>

text \<open>
  Notions for stating properties. \<open>put_request\<close> is the one request that writes a file:
  the method, the address of the contents of the path, the three headers with the
  credential, and a body of the commit text and the encoded content. \<open>file_requests\<close>
  are the requests the sync owes a file: that request, or none when \<^verbatim>\<open>btoa\<close> throws on its
  content.
\<close>

definition put_request :: "string \<Rightarrow> string \<Rightarrow> string \<Rightarrow> string \<Rightarrow> string \<Rightarrow> github_request" where
  "put_request repoFullName token filePath commit encoded =
     \<lparr> gh_method = ''PUT'',
       gh_url = ''https://api.github.com/repos/'' @ repoFullName @ ''/contents/'' @ filePath,
       gh_headers = [(''Authorization'', ''token '' @ token),
                     (''Accept'', ''application/vnd.github.v3+json''),
                     (''Content-Type'', ''application/json'')],
       gh_body = [(''message'', commit), (''content'', encoded)] \<rparr>"

definition file_requests :: "(string \<Rightarrow> string option) \<Rightarrow> string \<Rightarrow> string \<Rightarrow> sync_file \<Rightarrow> github_request list" where
  "file_requests btoa repoFullName token f =
     (case btoa (file_content f) of
        None \<Rightarrow> []
      | Some encoded \<Rightarrow>
          [put_request repoFullName token (file_path f) (commit_text (file_path f)) encoded])"

text \<open>
  The answers that stand for a failed write: the promise of \<^verbatim>\<open>fetch\<close> rejects, the
  response is not \<^verbatim>\<open>ok\<close>, or its body is no JSON.
\<close>

definition refuses :: "fetch_result \<Rightarrow> bool" where
  "refuses res =
     (case res of
        FetchRejected \<Rightarrow> True
      | FetchResponse ok st txt js \<Rightarrow> \<not> ok \<or> js = None)"

text \<open>The remote side after it has answered some requests in order, and the world of a
  run that has sent them.\<close>

fun remote_after :: "(github_request \<Rightarrow> 'w \<Rightarrow> fetch_result \<times> 'w) \<Rightarrow> github_request list \<Rightarrow> 'w \<Rightarrow> 'w" where
  "remote_after fetch [] r = r"
| "remote_after fetch (q # qs) r = remote_after fetch qs (snd (fetch q r))"

definition world_after ::
    "(github_request \<Rightarrow> 'w \<Rightarrow> fetch_result \<times> 'w) \<Rightarrow> github_request list \<Rightarrow> 'w github_world \<Rightarrow> 'w github_world" where
  "world_after fetch reqs w =
     \<lparr> remote = remote_after fetch reqs (remote w), requests = requests w @ reqs \<rparr>"

text \<open>
  The write of a file is refused in a state of the remote side when its content cannot
  be encoded or the hosting service answers its request there with a failure. The
  writes of a list of files are accepted in sequence when none is refused in the state
  the earlier ones leave.
\<close>

definition write_refused ::
    "(github_request \<Rightarrow> 'w \<Rightarrow> fetch_result \<times> 'w) \<Rightarrow> (string \<Rightarrow> string option) \<Rightarrow> string \<Rightarrow> string
       \<Rightarrow> sync_file \<Rightarrow> 'w \<Rightarrow> bool" where
  "write_refused fetch btoa repoFullName token f r =
     (case btoa (file_content f) of
        None \<Rightarrow> True
      | Some encoded \<Rightarrow>
          refuses (fst (fetch (put_request repoFullName token (file_path f)
                                 (commit_text (file_path f)) encoded) r)))"

fun writes_accepted ::
    "(github_request \<Rightarrow> 'w \<Rightarrow> fetch_result \<times> 'w) \<Rightarrow> (string \<Rightarrow> string option) \<Rightarrow> string \<Rightarrow> string
       \<Rightarrow> sync_file list \<Rightarrow> 'w \<Rightarrow> bool" where
  "writes_accepted fetch btoa repoFullName token [] r = True"
| "writes_accepted fetch btoa repoFullName token (f # fs) r =
     (\<not> write_refused fetch btoa repoFullName token f r
      \<and> writes_accepted fetch btoa repoFullName token fs
           (remote_after fetch (file_requests btoa repoFullName token f) r))"

section \<open>Example inputs\<close>

text \<open>Concrete platforms, states and requests, used where a statement is evaluated.\<close>

definition env_accepting :: telegram_env where
  "env_accepting = \<lparr> getMe_ok = (\<lambda>t. True), startPolling_ok = (\<lambda>t. True),
                       stopPolling_ok = (\<lambda>t. True), sendMessage_ok = (\<lambda>t c m. True) \<rparr>"

definition env_rejecting :: telegram_env where
  "env_rejecting = \<lparr> getMe_ok = (\<lambda>t. False), startPolling_ok = (\<lambda>t. False),
                       stopPolling_ok = (\<lambda>t. False), sendMessage_ok = (\<lambda>t c m. False) \<rparr>"

definition empty_state :: app_state where
  "empty_state = \<lparr> storage_bots = Map.empty, storage_botMessages = [],
                     telegram_bots = Map.empty, net = [] \<rparr>"

text \<open>A token of 20 bytes and 19 code units: \<^verbatim>\<open>bot\<close>, fifteen digits and the Cyrillic letter
  U+0439, whose UTF-8 bytes are 208 and 185.\<close>

definition cyrillic_token :: string where
  "cyrillic_token = ''bot123456789012345'' @ [char_of (208 :: nat), char_of (185 :: nat)]"

definition good_token :: string where
  "good_token = ''bot1234567890:ABCDEFGHIJ''"

definition example_bot :: Bot where
  "example_bot = \<lparr> bot_id = ''b1'', name = ''Helper'', description = None, username = ''helper_bot'',
                     telegramToken = good_token, gptModel = ''gpt-3.5-turbo'',
                     personality = Some ''You are a pirate.'', temperature = Some ''0.2'',
                     maxTokens = Some ''64'', isActive = Some False, createdAt = Some 1000,
                     userId = Some ''demo-user'' \<rparr>"

definition stored_state :: app_state where
  "stored_state = empty_state\<lparr>storage_bots := [''b1'' \<mapsto> example_bot]\<rparr>"

definition live_state :: app_state where
  "live_state = snd (telegram_createBot env_accepting ''b1'' good_token stored_state)"

definition patched_state :: app_state where
  "patched_state = snd (patch_bot env_accepting ''b1'' [Set_telegramToken []] live_state)"

definition insert_example :: InsertBot where
  "insert_example = \<lparr> ins_name = ''Helper'', ins_description = None, ins_username = ''helper_bot'',
                        ins_telegramToken = good_token, ins_gptModel = None, ins_personality = None,
                        ins_temperature = None, ins_maxTokens = None, ins_isActive = None \<rparr>"

text \<open>Three exchanges of the example bot, logged at the times \<open>t1\<close>, \<open>t2\<close> and \<open>t3\<close>.\<close>

definition log_entry :: "string \<Rightarrow> string \<Rightarrow> InsertBotMessage" where
  "log_entry txt reply = \<lparr> ins_botId = ''b1'', ins_message = txt, ins_response = Some reply \<rparr>"

definition log3 :: "int \<Rightarrow> int \<Rightarrow> int \<Rightarrow> app_state" where
  "log3 t1 t2 t3 =
     snd (createBotMessage (log_entry ''three'' ''3'') ''m3'' t3
       (snd (createBotMessage (log_entry ''two'' ''2'') ''m2'' t2
         (snd (createBotMessage (log_entry ''one'' ''1'') ''m1'' t1 stored_state)))))"

text \<open>\<^verbatim>\<open>btoa\<close> on byte strings: base64 with padding; it never throws there.\<close>

definition b64_chars :: string where
  "b64_chars = ''ABCDEFGHIJKLMNOPQRSTUVWXYZabcdefghijklmnopqrstuvwxyz0123456789+/''"

definition b64_digit :: "nat \<Rightarrow> char" where
  "b64_digit n = b64_chars ! (n mod 64)"

fun b64_encode :: "nat list \<Rightarrow> string" where
  "b64_encode (a # b # c # rest) =
     (let n = a * 65536 + b * 256 + c
      in [b64_digit (n div 262144), b64_digit (n div 4096), b64_digit (n div 64), b64_digit n])
     @ b64_encode rest"
| "b64_encode [a, b] =
     (let n = a * 65536 + b * 256
      in [b64_digit (n div 262144), b64_digit (n div 4096), b64_digit (n div 64), CHR ''=''])"
| "b64_encode [a] =
     (let n = a * 65536
      in [b64_digit (n div 262144), b64_digit (n div 4096), CHR ''='', CHR ''=''])"
| "b64_encode [] = []"

definition btoa_bytes :: "string \<Rightarrow> string option" where
  "btoa_bytes s = Some (b64_encode (map of_char s))"

text \<open>A hosting service that keeps the requests it has accepted and answers every write of
  \<^verbatim>\<open>b.txt\<close> with status 422 and a JSON body; a project of three files.\<close>

definition fetch_refusing_b :: "github_request \<Rightarrow> github_request list \<Rightarrow> fetch_result \<times> github_request list" where
  "fetch_refusing_b req w =
     (if gh_url req = ''https://api.github.com/repos/o/r/contents/b.txt''
      then (FetchResponse False 422 ''Invalid request''
              (Some (JObject [(''message'', JString ''Invalid request'')])), w)
      else (FetchResponse True 201 ''{}'' (Some (JObject [])), w @ [req]))"

definition three_files :: "sync_file list" where
  "three_files = [\<lparr> file_path = ''a.txt'', file_content = ''A'' \<rparr>,
                  \<lparr> file_path = ''b.txt'', file_content = ''B'' \<rparr>,
                  \<lparr> file_path = ''c.txt'', file_content = ''C'' \<rparr>]"

definition fresh_world :: "github_request list github_world" where
  "fresh_world = \<lparr> remote = [], requests = [] \<rparr>"




definition upstream_ahoy :: openai where
  "upstream_ahoy req = Completion [Some ''Ahoy!'']"



text \<open>The values of \<^verbatim>\<open>parseFloat\<close> on the two texts the examples use, and an inbound
  message.\<close>

definition parseFloat_table :: "string \<Rightarrow> jsnum" where
  "parseFloat_table s = (if s = ''0.2'' then Num 0.2 else if s = ''0.7'' then Num 0.7 else NaN)"

definition hello :: tg_message where
  "hello = \<lparr> chat_id = 42, text_of = Some ''hello'' \<rparr>"

section \<open>Properties of the bot lifecycle\<close>

subsection \<open>The store and the registry under \<open>updateBot\<close>\<close>

lemma updateBot_bots:
  "storage_bots (snd (updateBot i [Set_isActive v] s)) =
     (case storage_bots s i of
        None \<Rightarrow> storage_bots s
      | Some b \<Rightarrow> (storage_bots s)(i \<mapsto> b\<lparr>isActive := v\<rparr>))"
  by (simp add: updateBot_def Let_def split: option.splits)

lemma updateBot_frame:
  "telegram_bots (snd (updateBot i u s)) = telegram_bots s"
  "net (snd (updateBot i u s)) = net s"
  "storage_botMessages (snd (updateBot i u s)) = storage_botMessages s"
  by (simp_all add: updateBot_def Let_def split: option.splits)

lemma good_token_ok: "token_format_ok good_token"
  by (simp add: token_format_ok_def good_token_def truthy_str_def startsWith_def
      js_length_def utf16_units_def)

lemma live_state_eq:
  "live_state = \<lparr> storage_bots = [''b1'' \<mapsto> example_bot\<lparr>isActive := Some True\<rparr>],
                   storage_botMessages = [],
                   telegram_bots = [''b1'' \<mapsto> TelegramBot good_token],
                   net = [TgGetMe good_token, TgStartPolling good_token] \<rparr>"
  using good_token_ok
  by (simp add: live_state_def telegram_createBot_def env_accepting_def Let_def updateBot_def
      stored_state_def empty_state_def)

lemma activate_example:
  "telegram_createBot env_accepting ''b1'' good_token stored_state = (True, live_state)"
  using good_token_ok
  by (simp add: live_state_def telegram_createBot_def env_accepting_def Let_def)

lemma patched_state_eq:
  "patched_state = \<lparr> storage_bots = [''b1'' \<mapsto> example_bot\<lparr>isActive := Some True, telegramToken := []\<rparr>],
                   storage_botMessages = [],
                   telegram_bots = [''b1'' \<mapsto> TelegramBot good_token],
                   net = [TgGetMe good_token, TgStartPolling good_token] \<rparr>"
  by (simp add: patched_state_def patch_bot_def live_state_eq updateBot_def Let_def
      updates_telegramToken_def str_or_null_def truthy_str_def)

subsection \<open>Activation with a malformed token\<close>

text \<open>
  Claim C4. When the token fails the format test of \<^verbatim>\<open>createBot\<close> (it is empty, does not
  start with \<^verbatim>\<open>bot\<close>, or its \<^verbatim>\<open>length\<close>, counted in UTF-16 code units as the program counts
  it, is below 20), activation returns \<^verbatim>\<open>false\<close>, sends nothing (the log of outgoing calls is
  unchanged), leaves the registry as it was, and the stored record of that id, if there
  is one, has its active flag set to \<^verbatim>\<open>false\<close>.
\<close>

theorem activate_malformed_token:
  assumes "\<not> token_format_ok token"
  shows "fst (telegram_createBot env i token s) = False
       \<and> net (snd (telegram_createBot env i token s)) = net s
       \<and> telegram_bots (snd (telegram_createBot env i token s)) = telegram_bots s
       \<and> storage_bots (snd (telegram_createBot env i token s)) i
           = map_option (\<lambda>b. b\<lparr>isActive := Some False\<rparr>) (storage_bots s i)"
  using assms
  by (simp add: telegram_createBot_def updateBot_bots updateBot_frame split: option.splits)

text \<open>
  Two tokens on the example bot while it is active and live, with a platform that would
  accept anything: \<^verbatim>\<open>12345:abc\<close>, which has the wrong prefix and is short, and the token of
  20 bytes whose \<^verbatim>\<open>length\<close> is 19. Both are refused, nothing is sent, and the stored flag
  goes from \<^verbatim>\<open>true\<close> to \<^verbatim>\<open>false\<close>.
\<close>

theorem activate_malformed_token_witness:
  "\<not> token_format_ok ''12345:abc''
   \<and> map_option isActive (storage_bots live_state ''b1'') = Some (Some True)
   \<and> fst (telegram_createBot env_accepting ''b1'' ''12345:abc'' live_state) = False
   \<and> net (snd (telegram_createBot env_accepting ''b1'' ''12345:abc'' live_state)) = net live_state
   \<and> map_option isActive
        (storage_bots (snd (telegram_createBot env_accepting ''b1'' ''12345:abc'' live_state)) ''b1'')
       = Some (Some False)
   \<and> length cyrillic_token = 20 \<and> js_length cyrillic_token = 19
   \<and> \<not> token_format_ok cyrillic_token
   \<and> fst (telegram_createBot env_accepting ''b1'' cyrillic_token live_state) = False
   \<and> net (snd (telegram_createBot env_accepting ''b1'' cyrillic_token live_state)) = net live_state
   \<and> map_option isActive
        (storage_bots (snd (telegram_createBot env_accepting ''b1'' cyrillic_token live_state)) ''b1'')
       = Some (Some False)"
proof -
  have h1: "\<not> token_format_ok ''12345:abc''"
    by (simp add: token_format_ok_def truthy_str_def startsWith_def)
  have len: "length cyrillic_token = 20" "js_length cyrillic_token = 19"
    by (simp_all add: cyrillic_token_def js_length_def utf16_units_def)
  then have h2: "\<not> token_format_ok cyrillic_token"
    by (simp add: token_format_ok_def)
  have before: "map_option isActive (storage_bots live_state ''b1'') = Some (Some True)"
    by (simp add: live_state_eq)
  from activate_malformed_token[OF h1, of env_accepting "''b1''" live_state]
       activate_malformed_token[OF h2, of env_accepting "''b1''" live_state]
  show ?thesis using h1 h2 len before
    by (simp add: live_state_eq)
qed

subsection \<open>Deactivation\<close>

text \<open>
  Claim C7. For an id with no client in the registry, \<^verbatim>\<open>stopBot\<close> returns \<^verbatim>\<open>false\<close> and the
  whole state (store, registry and log of outgoing calls) is unchanged.
\<close>

theorem deactivate_absent_is_noop:
  assumes "telegram_bots s i = None"
  shows "stopBot env i s = (False, s)"
  using assms by (simp add: stopBot_def)

theorem deactivate_absent_is_noop_witness:
  "telegram_bots stored_state ''b1'' = None
   \<and> stopBot env_accepting ''b1'' stored_state = (False, stored_state)"
proof -
  have h: "telegram_bots stored_state ''b1'' = None"
    by (simp add: stored_state_def empty_state_def)
  from deactivate_absent_is_noop[OF h] h show ?thesis by simp
qed

lemma createBot_success:
  assumes "telegram_createBot env i token s = (True, s1)"
  shows "telegram_bots s1 i = Some (TelegramBot token)"
    and "storage_bots s1 i = map_option (\<lambda>b. b\<lparr>isActive := Some True\<rparr>) (storage_bots s i)"
  using assms
  by (auto simp add: telegram_createBot_def Let_def updateBot_bots updateBot_frame
      split: if_splits option.splits)

text \<open>
  Claim C5. If activation of an id returns \<^verbatim>\<open>true\<close>, then \<^verbatim>\<open>stopBot\<close> on the state it leaves
  returns \<^verbatim>\<open>true\<close> (whatever the platform answers to \<^verbatim>\<open>stopPolling\<close>), the registry has no
  entry for the id, and the stored record of the id, if there is one, has its active
  flag \<^verbatim>\<open>false\<close>.
\<close>

theorem deactivate_after_activate:
  assumes "telegram_createBot env i token s = (True, s1)"
  shows "fst (stopBot env' i s1) = True
       \<and> telegram_bots (snd (stopBot env' i s1)) i = None
       \<and> storage_bots (snd (stopBot env' i s1)) i
           = map_option (\<lambda>b. b\<lparr>isActive := Some False\<rparr>) (storage_bots s i)"
proof -
  from createBot_success[OF assms]
  have reg: "telegram_bots s1 i = Some (TelegramBot token)"
    and st: "storage_bots s1 i = map_option (\<lambda>b. b\<lparr>isActive := Some True\<rparr>) (storage_bots s i)"
    by simp_all
  show ?thesis
    using reg st
    by (cases "storage_bots s i") (simp_all add: stopBot_def Let_def updateBot_bots updateBot_frame)
qed

text \<open>The example bot is activated, then stopped while \<^verbatim>\<open>stopPolling\<close> throws.\<close>

theorem deactivate_after_activate_witness:
  "telegram_createBot env_accepting ''b1'' good_token stored_state = (True, live_state)
   \<and> fst (stopBot env_rejecting ''b1'' live_state) = True
   \<and> telegram_bots (snd (stopBot env_rejecting ''b1'' live_state)) ''b1'' = None
   \<and> map_option isActive (storage_bots (snd (stopBot env_rejecting ''b1'' live_state)) ''b1'')
       = Some (Some False)"
  using deactivate_after_activate[OF activate_example, of env_rejecting] activate_example
  by (simp add: stored_state_def empty_state_def)

subsection \<open>Toggle\<close>

lemma toggle_from_inactive_ok:
  assumes "storage_bots s i = Some b" "bot_id b = i" "\<not> truthy_bool_opt (isActive b)"
    and "token_format_ok (telegramToken b)"
    and "getMe_ok env (telegramToken b)" "startPolling_ok env (telegramToken b)"
  shows "storage_bots (snd (post_toggle env i s)) i = Some (b\<lparr>isActive := Some True\<rparr>)"
    and "telegram_bots (snd (post_toggle env i s)) i = Some (TelegramBot (telegramToken b))"
  using assms
  by (simp_all add: post_toggle_def getBot_def telegram_createBot_def Let_def updateBot_def)

lemma toggle_from_inactive_fail:
  assumes "storage_bots s i = Some b" "bot_id b = i" "\<not> truthy_bool_opt (isActive b)"
    and "\<not> token_format_ok (telegramToken b)"
  shows "storage_bots (snd (post_toggle env i s)) i = Some (b\<lparr>isActive := Some False\<rparr>)"
    and "telegram_bots (snd (post_toggle env i s)) = telegram_bots s"
  using assms
  by (simp_all add: post_toggle_def getBot_def telegram_createBot_def Let_def updateBot_def)

lemma toggle_from_active:
  assumes "storage_bots s i = Some b" "bot_id b = i" "truthy_bool_opt (isActive b)"
    and "telegram_bots s i \<noteq> None"
  shows "storage_bots (snd (post_toggle env i s)) i = Some (b\<lparr>isActive := Some False\<rparr>)"
    and "telegram_bots (snd (post_toggle env i s)) i = None"
  using assms
  by (auto simp add: post_toggle_def getBot_def stopBot_def Let_def updateBot_def)

text \<open>
  Claim C6, as stated, fails: a bot that is active and live, and whose stored token is
  empty, is stopped by the first toggle and not started again by the second, although
  every call to the platform would succeed. The state is the one
  \<^verbatim>\<open>PATCH /api/bots/b1\<close> with the body \<^verbatim>\<open>{telegramToken: ""}\<close> leaves of the live example
  bot: the empty token is falsy, so the handler stores it and does not restart the
  client.
\<close>

theorem toggle_twice_counterexample:
  "map_option (\<lambda>b'. truthy_bool_opt (isActive b')) (storage_bots patched_state ''b1'') = Some True
   \<and> telegram_bots patched_state ''b1'' \<noteq> None
   \<and> getMe_ok env_accepting [] \<and> startPolling_ok env_accepting []
   \<and> stopPolling_ok env_accepting good_token
   \<and> map_option (\<lambda>b'. truthy_bool_opt (isActive b'))
        (storage_bots
           (snd (post_toggle env_accepting ''b1'' (snd (post_toggle env_accepting ''b1'' patched_state))))
           ''b1'')
      = Some False"
  by (simp add: patched_state_eq post_toggle_def getBot_def stopBot_def telegram_createBot_def
      updateBot_def Let_def truthy_bool_opt_def env_accepting_def example_bot_def
      token_format_ok_def truthy_str_def)

text \<open>The handler acts on the id written in the record. A record stored under another
  key is left alone by a toggle of that key.\<close>

lemma toggle_other_id:
  assumes "storage_bots s i = Some b" and "bot_id b \<noteq> i"
  shows "storage_bots (snd (post_toggle env i s)) i = Some b"
  using assms
  by (auto simp add: post_toggle_def getBot_def stopBot_def telegram_createBot_def updateBot_def
      Let_def split: option.splits prod.splits if_splits)

lemma toggle_twice_own_id:
  assumes stored: "storage_bots s i = Some b" and own_id: "bot_id b = i"
    and agree: "truthy_bool_opt (isActive b) \<longleftrightarrow> telegram_bots s i \<noteq> None"
    and transport1: "getMe_ok env1 (telegramToken b) \<and> startPolling_ok env1 (telegramToken b)"
    and transport2: "getMe_ok env2 (telegramToken b) \<and> startPolling_ok env2 (telegramToken b)"
    and format: "truthy_bool_opt (isActive b) \<longrightarrow> token_format_ok (telegramToken b)"
  shows "map_option (\<lambda>b'. truthy_bool_opt (isActive b'))
           (storage_bots (snd (post_toggle env2 i (snd (post_toggle env1 i s)))) i)
         = Some (truthy_bool_opt (isActive b))"
proof (cases "truthy_bool_opt (isActive b)")
  case True
  let ?s1 = "snd (post_toggle env1 i s)"
  let ?b1 = "b\<lparr>isActive := Some False\<rparr>"
  from True agree have live: "telegram_bots s i \<noteq> None" by simp
  have s1: "storage_bots ?s1 i = Some ?b1" and r1: "telegram_bots ?s1 i = None"
    using toggle_from_active[OF stored own_id True live] by simp_all
  have "storage_bots (snd (post_toggle env2 i ?s1)) i = Some (?b1\<lparr>isActive := Some True\<rparr>)"
    using toggle_from_inactive_ok[OF s1, of env2] own_id True format transport2
    by (simp add: truthy_bool_opt_def)
  with True show ?thesis by (simp add: truthy_bool_opt_def)
next
  case False
  let ?s1 = "snd (post_toggle env1 i s)"
  show ?thesis
  proof (cases "token_format_ok (telegramToken b)")
    case ok: True
    let ?b1 = "b\<lparr>isActive := Some True\<rparr>"
    have s1: "storage_bots ?s1 i = Some ?b1" and r1: "telegram_bots ?s1 i \<noteq> None"
      using toggle_from_inactive_ok[OF stored own_id False ok] transport1 by simp_all
    have "storage_bots (snd (post_toggle env2 i ?s1)) i = Some (?b1\<lparr>isActive := Some False\<rparr>)"
      using toggle_from_active[OF s1 _ _ r1, of env2] own_id by (simp add: truthy_bool_opt_def)
    with False show ?thesis by (simp add: truthy_bool_opt_def)
  next
    case bad: False
    let ?b1 = "b\<lparr>isActive := Some False\<rparr>"
    have s1: "storage_bots ?s1 i = Some ?b1"
      using toggle_from_inactive_fail[OF stored own_id False bad] by simp
    have "storage_bots (snd (post_toggle env2 i ?s1)) i = Some (?b1\<lparr>isActive := Some False\<rparr>)"
      using toggle_from_inactive_fail[OF s1, of env2] own_id bad by (simp add: truthy_bool_opt_def)
    with False show ?thesis by (simp add: truthy_bool_opt_def)
  qed
qed

text \<open>
  Claim C6, amended. Take a stored bot whose active flag agrees with the registry, let
  \<^verbatim>\<open>getMe\<close> and \<^verbatim>\<open>startPolling\<close> succeed for its token during both requests, and, when the
  bot starts out active, let its stored token pass the format test of \<^verbatim>\<open>createBot\<close>. Then
  two toggles in a row leave the stored active flag as it was.
\<close>

theorem toggle_twice_restores_active_flag:
  assumes stored: "storage_bots s i = Some b"
    and agree: "truthy_bool_opt (isActive b) \<longleftrightarrow> telegram_bots s i \<noteq> None"
    and transport1: "getMe_ok env1 (telegramToken b) \<and> startPolling_ok env1 (telegramToken b)"
    and transport2: "getMe_ok env2 (telegramToken b) \<and> startPolling_ok env2 (telegramToken b)"
    and format: "truthy_bool_opt (isActive b) \<longrightarrow> token_format_ok (telegramToken b)"
  shows "map_option (\<lambda>b'. truthy_bool_opt (isActive b'))
           (storage_bots (snd (post_toggle env2 i (snd (post_toggle env1 i s)))) i)
         = Some (truthy_bool_opt (isActive b))"
proof (cases "bot_id b = i")
  case own_id: True
  show ?thesis
    using toggle_twice_own_id[OF stored own_id agree transport1 transport2 format] .
next
  case False
  have "storage_bots (snd (post_toggle env1 i s)) i = Some b"
    using toggle_other_id[OF stored False] .
  then have "storage_bots (snd (post_toggle env2 i (snd (post_toggle env1 i s)))) i = Some b"
    using toggle_other_id[OF _ False] by simp
  then show ?thesis by simp
qed

text \<open>The live example bot: the first toggle stops it, the second starts it again.\<close>

theorem toggle_twice_restores_active_flag_witness:
  "storage_bots live_state ''b1'' = Some (example_bot\<lparr>isActive := Some True\<rparr>)
   \<and> telegram_bots live_state ''b1'' \<noteq> None
   \<and> token_format_ok (telegramToken example_bot)
   \<and> map_option (\<lambda>b'. truthy_bool_opt (isActive b'))
        (storage_bots
           (snd (post_toggle env_accepting ''b1'' (snd (post_toggle env_accepting ''b1'' live_state))))
           ''b1'')
      = Some True"
proof -
  let ?b = "example_bot\<lparr>isActive := Some True\<rparr>"
  have h1: "storage_bots live_state ''b1'' = Some ?b" by (simp add: live_state_eq)
  have h3: "truthy_bool_opt (isActive ?b) \<longleftrightarrow> telegram_bots live_state ''b1'' \<noteq> None"
    by (simp add: live_state_eq truthy_bool_opt_def)
  have h4: "getMe_ok env_accepting (telegramToken ?b) \<and> startPolling_ok env_accepting (telegramToken ?b)"
    by (simp add: env_accepting_def)
  have h5: "token_format_ok (telegramToken ?b)"
    using good_token_ok by (simp add: example_bot_def)
  then have h6: "truthy_bool_opt (isActive ?b) \<longrightarrow> token_format_ok (telegramToken ?b)" by simp
  from toggle_twice_restores_active_flag[OF h1 h3 h4 h4 h6] h1 h3 h5
  show ?thesis by (simp add: truthy_bool_opt_def)
qed

subsection \<open>Creating a bot whose token the platform rejects\<close>

text \<open>
  Claim C2, as stated, fails on its middle part: after the request there is no stored
  record of the bot at all, since the handler deletes it before it answers 400.
\<close>

theorem create_bot_rejected_token_counterexample:
  "status (fst (post_api_bots env_rejecting (Inr insert_example) ''b7'' 1000 empty_state)) = 400
   \<and> \<not> (\<exists>b. storage_bots (snd (post_api_bots env_rejecting (Inr insert_example) ''b7'' 1000 empty_state)) ''b7''
                = Some b
            \<and> isActive b = Some False)"
  using good_token_ok
  by (simp add: post_api_bots_def storage_createBot_def telegram_createBot_def deleteBot_def
      updateBot_def Let_def insert_example_def env_rejecting_def empty_state_def)

text \<open>
  Claim C2, amended. Let the token of a validated body pass the format test and let the
  platform reject it (\<^verbatim>\<open>getMe\<close> throws). Then the activation inside \<^verbatim>\<open>POST /api/bots\<close> returns
  \<^verbatim>\<open>false\<close> and leaves the record just stored with the active flag \<^verbatim>\<open>false\<close>; the handler
  answers 400 with the text about the token; and in the state after the request the record
  is gone from the store and the registry is as before.
\<close>

theorem create_bot_rejected_token:
  assumes format: "token_format_ok (ins_telegramToken ib)"
    and rejected: "\<not> getMe_ok env (ins_telegramToken ib)"
  shows "fst (telegram_createBot env newId (ins_telegramToken ib)
                (snd (storage_createBot ib ''demo-user'' newId now s))) = False
       \<and> map_option isActive
           (storage_bots (snd (telegram_createBot env newId (ins_telegramToken ib)
                                 (snd (storage_createBot ib ''demo-user'' newId now s)))) newId)
           = Some (Some False)
       \<and> fst (post_api_bots env (Inr ib) newId now s)
           = Response 400 (MessageJson ''Failed to initialize Telegram bot. Please check your token.'')
       \<and> storage_bots (snd (post_api_bots env (Inr ib) newId now s)) newId = None
       \<and> telegram_bots (snd (post_api_bots env (Inr ib) newId now s)) = telegram_bots s"
  using assms
  by (simp add: post_api_bots_def storage_createBot_def telegram_createBot_def deleteBot_def
      updateBot_def Let_def)

theorem create_bot_rejected_token_witness:
  "token_format_ok (ins_telegramToken insert_example)
   \<and> \<not> getMe_ok env_rejecting (ins_telegramToken insert_example)
   \<and> fst (post_api_bots env_rejecting (Inr insert_example) ''b7'' 1000 empty_state)
       = Response 400 (MessageJson ''Failed to initialize Telegram bot. Please check your token.'')
   \<and> storage_bots (snd (post_api_bots env_rejecting (Inr insert_example) ''b7'' 1000 empty_state)) ''b7''
       = None"
proof -
  have h1: "token_format_ok (ins_telegramToken insert_example)"
    using good_token_ok by (simp add: insert_example_def)
  have h2: "\<not> getMe_ok env_rejecting (ins_telegramToken insert_example)"
    by (simp add: env_rejecting_def)
  from create_bot_rejected_token[OF h1 h2, of "''b7''" 1000 empty_state] h1 h2
  show ?thesis by simp
qed

section \<open>Properties of the message log\<close>

lemma insort_key_snoc:
  "\<forall>y \<in> set ys. f y < f x \<Longrightarrow> insort_key f x ys = ys @ [x]"
  for f :: "'a \<Rightarrow> int"
  by (induction ys) auto

lemma sort_newest_first_rev:
  "sorted_wrt (<) (map timestamp_key ms) \<Longrightarrow> sort_newest_first ms = rev ms"
proof (induction ms)
  case Nil
  show ?case by (simp add: sort_newest_first_def)
next
  case (Cons m ms)
  then have later: "\<forall>y \<in> set ms. timestamp_key m < timestamp_key y"
    and rest: "sort_newest_first ms = rev ms"
    by simp_all
  have "sort_newest_first (m # ms) = insort_key (\<lambda>m. - timestamp_key m) m (rev ms)"
    using rest by (simp add: sort_newest_first_def)
  also have "\<dots> = rev ms @ [m]"
    using later by (intro insort_key_snoc) simp
  finally show ?case by simp
qed

lemma slice0_nat: "slice0 xs (Num (real n)) = take n xs"
  by (simp add: slice0_def js_trunc_def)

lemma slice0_numeral: "slice0 xs (Num (numeral k)) = take (numeral k) xs"
  using slice0_nat[of xs "numeral k"] by simp

lemma log3_messages:
  "map snd (storage_botMessages (log3 t1 t2 t3)) =
     [\<lparr> message_id = ''m1'', botId = ''b1'', message = ''one'', response = Some ''1'', timestamp = Some t1 \<rparr>,
      \<lparr> message_id = ''m2'', botId = ''b1'', message = ''two'', response = Some ''2'', timestamp = Some t2 \<rparr>,
      \<lparr> message_id = ''m3'', botId = ''b1'', message = ''three'', response = Some ''3'', timestamp = Some t3 \<rparr>]"
  by (simp add: log3_def createBotMessage_def log_entry_def stored_state_def empty_state_def
      str_or_null_def truthy_str_def Let_def)

text \<open>
  Claim C8, as stated, fails: three records logged within the same millisecond have equal
  sort keys, the stable sort leaves them in creation order, and a limit of 2 returns the
  two oldest records, oldest first.
\<close>

theorem getBotMessages_same_millisecond_counterexample:
  "map message_id (map snd (storage_botMessages (log3 1000 1000 1000))) = [''m1'', ''m2'', ''m3'']
   \<and> map message_id (getBotMessages (log3 1000 1000 1000) ''b1'' (Some (Num 2))) = [''m1'', ''m2'']"
  by (simp add: getBotMessages_def log3_messages sort_newest_first_def timestamp_key_def slice0_numeral)

text \<open>
  Claim C8, amended. When the timestamps of the records of a bot increase strictly in
  creation order, \<^verbatim>\<open>getBotMessages\<close> with a limit \<open>n\<close> returns the \<open>n\<close> most recently created
  records of that bot (all of them if there are fewer), newest first; with no limit given,
  the store and the handler of \<^verbatim>\<open>GET /api/bots/:id/messages\<close> do the same for 50. After
  three exchanges and with limit 2 these are the third and the second record.
\<close>

theorem getBotMessages_newest_first:
  assumes "sorted_wrt (<) (map timestamp_key (filter (\<lambda>m. botId m = i) (map snd (storage_botMessages s))))"
  shows "getBotMessages s i (Some (Num (real n)))
           = take n (rev (filter (\<lambda>m. botId m = i) (map snd (storage_botMessages s))))
       \<and> getBotMessages s i None
           = take 50 (rev (filter (\<lambda>m. botId m = i) (map snd (storage_botMessages s))))
       \<and> get_messages i None s
           = Response 200
               (MessagesJson (take 50 (rev (filter (\<lambda>m. botId m = i) (map snd (storage_botMessages s))))))"
  using sort_newest_first_rev[OF assms]
  by (simp add: getBotMessages_def get_messages_def query_limit_def slice0_nat slice0_numeral)

text \<open>Three exchanges one second apart: limit 2 gives the third and the second record.\<close>

theorem getBotMessages_newest_first_witness:
  "sorted_wrt (<) (map timestamp_key (filter (\<lambda>m. botId m = ''b1'') (map snd (storage_botMessages (log3 1000 2000 3000)))))
   \<and> map message_id (getBotMessages (log3 1000 2000 3000) ''b1'' (Some (Num 2))) = [''m3'', ''m2'']
   \<and> map message_id (getBotMessages (log3 1000 2000 3000) ''b1'' None) = [''m3'', ''m2'', ''m1'']"
proof -
  have h: "sorted_wrt (<) (map timestamp_key (filter (\<lambda>m. botId m = ''b1'') (map snd (storage_botMessages (log3 1000 2000 3000)))))"
    by (simp add: log3_messages timestamp_key_def)
  from getBotMessages_newest_first[OF h, of 2] h
  show ?thesis by (simp add: log3_messages)
qed

subsection \<open>The limit of \<^verbatim>\<open>GET /api/bots/:id/messages\<close>\<close>

lemma slice0_NaN: "slice0 xs NaN = []"
  by (simp add: slice0_def)

lemma parseInt_abc: "parseInt ''abc'' = NaN"
  by (simp add: parseInt_def js_whitespace_def is_digit_def digit_value_def)

lemma parseInt_empty: "parseInt [] = NaN"
  by (simp add: parseInt_def)

text \<open>Two more values of \<open>parseInt\<close>: a sign after white space with trailing text, and
  a hexadecimal prefix.\<close>

lemma parseInt_12: "parseInt '' -12px'' = Num (-12)"
  by (simp add: parseInt_def js_whitespace_def is_digit_def digit_value_def)

lemma parseInt_hex: "parseInt ''0x1F'' = Num 31"
  by (simp add: parseInt_def js_whitespace_def is_digit_def digit_value_def)

text \<open>
  Claim C10, as stated, fails for the request \<^verbatim>\<open>?limit=\<close>: the parameter is present and its
  value, the empty string, is no integer (\<^verbatim>\<open>parseInt\<close> gives \<open>NaN\<close> on it), but the handler
  tests the value for truthiness first, so the limit is the default 50 and the messages
  come back.
\<close>

theorem empty_limit_counterexample:
  "parseInt [] = NaN
   \<and> query_limit (Some []) = Num 50
   \<and> get_messages ''b1'' (Some []) (log3 1000 2000 3000)
       = Response 200 (MessagesJson (getBotMessages (log3 1000 2000 3000) ''b1'' (Some (Num 50))))
   \<and> map message_id (getBotMessages (log3 1000 2000 3000) ''b1'' (Some (Num 50)))
       = [''m3'', ''m2'', ''m1'']"
  by (simp add: parseInt_empty query_limit_def truthy_str_def get_messages_def getBotMessages_def
      log3_messages sort_newest_first_def timestamp_key_def slice0_numeral)

text \<open>
  Claim C10, amended. When the \<^verbatim>\<open>limit\<close> parameter is a non-empty string on which
  \<^verbatim>\<open>parseInt\<close> gives \<open>NaN\<close>, the limit handed to the store is \<open>NaN\<close> and the answer is status 200
  with the empty list.
\<close>

theorem unparseable_limit_gives_empty_list:
  assumes "q \<noteq> []" and "parseInt q = NaN"
  shows "query_limit (Some q) = NaN \<and> get_messages i (Some q) s = Response 200 (MessagesJson [])"
  using assms
  by (simp add: get_messages_def query_limit_def truthy_str_def getBotMessages_def slice0_NaN)

theorem unparseable_limit_gives_empty_list_witness:
  "''abc'' \<noteq> [] \<and> parseInt ''abc'' = NaN
   \<and> query_limit (Some ''abc'') = NaN
   \<and> get_messages ''b1'' (Some ''abc'') (log3 1000 2000 3000) = Response 200 (MessagesJson [])"
  using unparseable_limit_gives_empty_list[OF _ parseInt_abc, of "''b1''" "log3 1000 2000 3000"] parseInt_abc
  by simp

section \<open>Properties of the project sync\<close>

lemma remote_after_append:
  "remote_after fetch (qs @ qs') r = remote_after fetch qs' (remote_after fetch qs r)"
  by (induction qs arbitrary: r) simp_all

lemma world_after_Nil: "world_after fetch [] w = w"
  by (simp add: world_after_def)

lemma world_after_append:
  "world_after fetch (qs @ qs') w = world_after fetch qs' (world_after fetch qs w)"
  by (simp add: world_after_def remote_after_append)

lemma makeRequest_put:
  "makeRequest fetch (''/repos/'' @ repo @ ''/contents/'' @ p) token ''PUT''
     [(''message'', commit), (''content'', encoded)] w = (res, w') \<Longrightarrow>
   w' = world_after fetch [put_request repo token p commit encoded] w
   \<and> (isl res \<longleftrightarrow> refuses (fst (fetch (put_request repo token p commit encoded) (remote w))))"
  by (auto simp add: makeRequest_def put_request_def world_after_def refuses_def Let_def
      split: prod.splits fetch_result.splits option.splits if_splits)

lemma createOrUpdateFile_sync:
  "createOrUpdateFile fetch btoa repo (file_path f) (file_content f) (commit_text (file_path f)) token None w
     = (if write_refused fetch btoa repo token f (remote w) then Inl CreateOrUpdateError else Inr (),
        world_after fetch (file_requests btoa repo token f) w)"
proof (cases "btoa (file_content f)")
  case None
  then show ?thesis
    by (simp add: createOrUpdateFile_def write_refused_def file_requests_def world_after_Nil)
next
  case (Some encoded)
  let ?q = "put_request repo token (file_path f) (commit_text (file_path f)) encoded"
  obtain res w' where mr:
    "makeRequest fetch (''/repos/'' @ repo @ ''/contents/'' @ file_path f) token ''PUT''
       [(''message'', commit_text (file_path f)), (''content'', encoded)] w = (res, w')"
    by (cases "makeRequest fetch (''/repos/'' @ repo @ ''/contents/'' @ file_path f) token ''PUT''
       [(''message'', commit_text (file_path f)), (''content'', encoded)] w")
  from makeRequest_put[OF mr]
  have w': "w' = world_after fetch [?q] w"
    and res: "isl res \<longleftrightarrow> refuses (fst (fetch ?q (remote w)))"
    by simp_all
  show ?thesis
    using Some mr w' res
    by (cases res)
       (simp_all add: createOrUpdateFile_def write_refused_def file_requests_def str_or_null_def)
qed

lemma sync_loop_append:
  "sync_loop fetch btoa repo token (pre @ rest) w =
     (case sync_loop fetch btoa repo token pre w of
        (Inl e, w') \<Rightarrow> (Inl e, w')
      | (Inr u, w') \<Rightarrow> sync_loop fetch btoa repo token rest w')"
  by (induction pre arbitrary: w) (auto split: prod.splits sum.splits)

lemma sync_loop_accepted:
  "writes_accepted fetch btoa repo token fs (remote w) \<Longrightarrow>
     sync_loop fetch btoa repo token fs w
       = (Inr (), world_after fetch (concat (map (file_requests btoa repo token) fs)) w)"
proof (induction fs arbitrary: w)
  case Nil
  show ?case by (simp add: world_after_Nil)
next
  case (Cons f fs)
  let ?w1 = "world_after fetch (file_requests btoa repo token f) w"
  from Cons.prems have ok: "\<not> write_refused fetch btoa repo token f (remote w)"
    and rest: "writes_accepted fetch btoa repo token fs (remote ?w1)"
    by (simp_all add: world_after_def)
  have "sync_loop fetch btoa repo token (f # fs) w = sync_loop fetch btoa repo token fs ?w1"
    using ok by (simp add: createOrUpdateFile_sync)
  also have "\<dots> = (Inr (), world_after fetch (concat (map (file_requests btoa repo token) fs)) ?w1)"
    using Cons.IH[OF rest] .
  finally show ?case by (simp add: world_after_append)
qed

text \<open>
  Claim C9. The sync writes the files one after the other, each with a request of its
  own that carries the commit text and the encoded content of that file. If the hosting
  service accepts the writes of all files in sequence, the sync succeeds and these
  requests, in order, are all it has sent. If it accepts the writes of the files \<open>pre\<close>
  and refuses the write of the next file \<open>f\<close> (the request is rejected, answered with a
  response that is not \<^verbatim>\<open>ok\<close> or with a body that is no JSON, or the content cannot be
  encoded), then the sync of \<open>pre @ f # post\<close> throws its error. The requests sent are
  then exactly those of \<open>pre\<close> and the attempt for \<open>f\<close>, and the remote side is in the state
  these requests leave: the writes of \<open>pre\<close> stay applied, nothing is sent to undo them,
  and nothing is sent for \<open>post\<close>.
\<close>

theorem sync_stops_at_first_failure:
  "(writes_accepted fetch btoa repo token files (remote w) \<longrightarrow>
      syncProjectToGitHub fetch btoa repo files token w
        = (Inr (), world_after fetch (concat (map (file_requests btoa repo token) files)) w))
   \<and> (writes_accepted fetch btoa repo token pre (remote w)
      \<and> write_refused fetch btoa repo token f
           (remote_after fetch (concat (map (file_requests btoa repo token) pre)) (remote w))
      \<longrightarrow> syncProjectToGitHub fetch btoa repo (pre @ f # post) token w
            = (Inl SyncError,
               world_after fetch (concat (map (file_requests btoa repo token) (pre @ [f]))) w))"
proof (intro conjI impI)
  assume "writes_accepted fetch btoa repo token files (remote w)"
  from sync_loop_accepted[OF this]
  show "syncProjectToGitHub fetch btoa repo files token w
          = (Inr (), world_after fetch (concat (map (file_requests btoa repo token) files)) w)"
    by (simp add: syncProjectToGitHub_def)
next
  let ?w1 = "world_after fetch (concat (map (file_requests btoa repo token) pre)) w"
  assume h: "writes_accepted fetch btoa repo token pre (remote w)
      \<and> write_refused fetch btoa repo token f
           (remote_after fetch (concat (map (file_requests btoa repo token) pre)) (remote w))"
  then have before: "sync_loop fetch btoa repo token pre w = (Inr (), ?w1)"
    using sync_loop_accepted by blast
  from h have refused: "write_refused fetch btoa repo token f (remote ?w1)"
    by (simp add: world_after_def)
  have "sync_loop fetch btoa repo token (pre @ f # post) w
          = (Inl CreateOrUpdateError, world_after fetch (file_requests btoa repo token f) ?w1)"
    using before refused by (simp add: sync_loop_append createOrUpdateFile_sync)
  then show "syncProjectToGitHub fetch btoa repo (pre @ f # post) token w
            = (Inl SyncError,
               world_after fetch (concat (map (file_requests btoa repo token) (pre @ [f]))) w)"
    by (simp add: syncProjectToGitHub_def world_after_append)
qed

lemma btoa_A: "btoa_bytes ''A'' = Some ''QQ==''" and btoa_B: "btoa_bytes ''B'' = Some ''Qg==''"
  by (simp_all add: btoa_bytes_def b64_digit_def b64_chars_def)

text \<open>
  Three files, the second refused with a response that is not \<^verbatim>\<open>ok\<close> though its body is
  JSON: the request for \<^verbatim>\<open>a.txt\<close> with its commit text and content is accepted and stays,
  the one for \<^verbatim>\<open>b.txt\<close> is sent and refused, none is sent for \<^verbatim>\<open>c.txt\<close>. The first file
  alone syncs with success.
\<close>

theorem sync_stops_at_first_failure_witness:
  "writes_accepted fetch_refusing_b btoa_bytes ''o/r'' ''t'' (take 1 three_files) (remote fresh_world)
   \<and> write_refused fetch_refusing_b btoa_bytes ''o/r'' ''t'' \<lparr> file_path = ''b.txt'', file_content = ''B'' \<rparr>
        [put_request ''o/r'' ''t'' ''a.txt'' (commit_text ''a.txt'') ''QQ=='']
   \<and> fst (fetch_refusing_b (put_request ''o/r'' ''t'' ''b.txt'' (commit_text ''b.txt'') ''Qg=='')
             [put_request ''o/r'' ''t'' ''a.txt'' (commit_text ''a.txt'') ''QQ==''])
       = FetchResponse False 422 ''Invalid request'' (Some (JObject [(''message'', JString ''Invalid request'')]))
   \<and> syncProjectToGitHub fetch_refusing_b btoa_bytes ''o/r'' (take 1 three_files) ''t'' fresh_world
       = (Inr (),
          \<lparr> remote = [put_request ''o/r'' ''t'' ''a.txt'' (commit_text ''a.txt'') ''QQ==''],
            requests = [put_request ''o/r'' ''t'' ''a.txt'' (commit_text ''a.txt'') ''QQ==''] \<rparr>)
   \<and> syncProjectToGitHub fetch_refusing_b btoa_bytes ''o/r'' three_files ''t'' fresh_world
       = (Inl SyncError,
          \<lparr> remote = [put_request ''o/r'' ''t'' ''a.txt'' (commit_text ''a.txt'') ''QQ==''],
            requests = [put_request ''o/r'' ''t'' ''a.txt'' (commit_text ''a.txt'') ''QQ=='',
                        put_request ''o/r'' ''t'' ''b.txt'' (commit_text ''b.txt'') ''Qg==''] \<rparr>)
   \<and> gh_body (put_request ''o/r'' ''t'' ''a.txt'' (commit_text ''a.txt'') ''QQ=='')
       = [(''message'', commit_text ''a.txt''), (''content'', ''QQ=='')]
   \<and> gh_headers (put_request ''o/r'' ''t'' ''a.txt'' (commit_text ''a.txt'') ''QQ=='')
       = [(''Authorization'', ''token t''), (''Accept'', ''application/vnd.github.v3+json''),
          (''Content-Type'', ''application/json'')]"
proof -
  let ?a = "\<lparr> file_path = ''a.txt'', file_content = ''A'' \<rparr>"
  let ?b = "\<lparr> file_path = ''b.txt'', file_content = ''B'' \<rparr>"
  let ?c = "\<lparr> file_path = ''c.txt'', file_content = ''C'' \<rparr>"
  let ?qa = "put_request ''o/r'' ''t'' ''a.txt'' (commit_text ''a.txt'') ''QQ==''"
  let ?qb = "put_request ''o/r'' ''t'' ''b.txt'' (commit_text ''b.txt'') ''Qg==''"
  have ra: "file_requests btoa_bytes ''o/r'' ''t'' ?a = [?qa]"
    and rb: "file_requests btoa_bytes ''o/r'' ''t'' ?b = [?qb]"
    by (simp_all add: file_requests_def btoa_A btoa_B)
  have sent_a: "gh_body ?qa = [(''message'', commit_text ''a.txt''), (''content'', ''QQ=='')]"
    "gh_headers ?qa = [(''Authorization'', ''token t''), (''Accept'', ''application/vnd.github.v3+json''),
                       (''Content-Type'', ''application/json'')]"
    by (simp_all add: put_request_def)
  have url_a: "gh_url ?qa \<noteq> ''https://api.github.com/repos/o/r/contents/b.txt''"
    and url_b: "gh_url ?qb = ''https://api.github.com/repos/o/r/contents/b.txt''"
    by (simp_all add: put_request_def)
  have fa: "fetch_refusing_b ?qa [] = (FetchResponse True 201 ''{}'' (Some (JObject [])), [?qa])"
    using url_a by (simp add: fetch_refusing_b_def)
  have fb: "fetch_refusing_b ?qb [?qa]
              = (FetchResponse False 422 ''Invalid request''
                   (Some (JObject [(''message'', JString ''Invalid request'')])), [?qa])"
    using url_b by (simp add: fetch_refusing_b_def)
  have acc: "writes_accepted fetch_refusing_b btoa_bytes ''o/r'' ''t'' [?a] (remote fresh_world)"
    by (simp add: write_refused_def btoa_A fa refuses_def fresh_world_def)
  have ref: "write_refused fetch_refusing_b btoa_bytes ''o/r'' ''t'' ?b [?qa]"
    by (simp add: write_refused_def btoa_B fb refuses_def)
  from sync_stops_at_first_failure[of fetch_refusing_b btoa_bytes "''o/r''" "''t''" "[?a]" fresh_world
         "[?a]" ?b "[?c]"]
  show ?thesis
    using acc ref sent_a
    by (simp add: three_files_def ra rb fa fb world_after_def fresh_world_def)
qed

section \<open>Properties of the completion gateway\<close>

lemma effective_generateResponse:
  "openaiService_generateResponse = generateResponse_second"
  by (rule ext, rule ext)
     (simp add: openaiService_generateResponse_def prototype_lookup_def OpenAIService_methods_def)








subsection \<open>The completion request of an inbound message\<close>

lemma first_definition_uses_config:
  "snd (generateResponse_first openai
          [JString txt, JString pers,
           JObject [(''model'', m), (''temperature'', t), (''maxTokens'', k)]])
     = [\<lparr> req_model = m,
          req_messages = [chat_message ''system'' (JString pers), chat_message ''user'' (JString txt)],
          req_temperature = t,
          req_max_tokens = k \<rparr>]"
  by (simp add: generateResponse_first_def arg_def Let_def request_first_def object_get_def)

lemma second_definition_fixed_sampling:
  "r \<in> set (snd (generateResponse_second openai args)) \<Longrightarrow>
     req_model r = JString ''gpt-4o'' \<and> req_temperature r = JNumber (Num 0.7)
     \<and> req_max_tokens r = JNumber (Num 500)"
  by (auto simp add: generateResponse_second_def Let_def request_second_def
      split: option.splits prod.splits)

lemma second_definition_on_string:
  "generateResponse_second openai (JString txt # rest) = (Inl GenerationError, [])"
  by (simp add: generateResponse_second_def arg_def)

text \<open>
  Claim C1 does not hold of the code. \<^verbatim>\<open>handleMessage\<close> calls
  \<^verbatim>\<open>generateResponse(userMessage, personality, config)\<close>, which the first definition would
  answer with a request that carries the personality and the configuration of the bot
  (\<open>first_definition_uses_config\<close>). The call finds the second definition
  (\<open>effective_generateResponse\<close>), whose only parameter is then the message text: the
  spread of its \<^verbatim>\<open>history\<close>, which is \<^verbatim>\<open>undefined\<close>, throws, and the method fails before any
  request (\<open>second_definition_on_string\<close>). So for every stored bot and every non-empty
  message the only thing sent is the apology, no completion is requested, and the log
  keeps the one record without a reply. A request of the second definition would carry
  the model \<^verbatim>\<open>gpt-4o\<close>, the temperature 0.7 and the length 500 whatever the bot
  (\<open>second_definition_fixed_sampling\<close>).
\<close>

theorem inbound_message_gets_no_completion:
  assumes "getBot s i = Some botConfig" and "text_of msg = Some txt" and "txt \<noteq> []"
  shows "net (handleMessage env openai pf i client msg fresh1 fresh2 s)
           = net s @ [TgSendMessage (client_token client) (chat_id msg) apology]
       \<and> storage_botMessages (handleMessage env openai pf i client msg fresh1 fresh2 s)
           = map_set (storage_botMessages s) (fst fresh1)
               \<lparr> message_id = fst fresh1, botId = i, message = txt, response = None,
                  timestamp = Some (snd fresh1) \<rparr>"
  using assms
  by (simp add: handleMessage_def effective_generateResponse second_definition_on_string
      str_or_null_def truthy_str_def createBotMessage_def send_apology_def Let_def)

theorem inbound_message_gets_no_completion_witness:
  "getBot live_state ''b1'' = Some (example_bot\<lparr>isActive := Some True\<rparr>)
   \<and> text_of hello = Some ''hello''
   \<and> net (handleMessage env_accepting upstream_ahoy parseFloat_table ''b1'' (TelegramBot good_token) hello
             (''m1'', 5000) (''m2'', 5001) live_state)
      = [TgGetMe good_token, TgStartPolling good_token, TgSendMessage good_token 42 apology]
   \<and> map snd (storage_botMessages
        (handleMessage env_accepting upstream_ahoy parseFloat_table ''b1'' (TelegramBot good_token) hello
           (''m1'', 5000) (''m2'', 5001) live_state))
      = [\<lparr> message_id = ''m1'', botId = ''b1'', message = ''hello'', response = None,
            timestamp = Some 5000 \<rparr>]"
proof -
  have h1: "getBot live_state ''b1'' = Some (example_bot\<lparr>isActive := Some True\<rparr>)"
    by (simp add: getBot_def live_state_eq)
  have h2: "text_of hello = Some ''hello''" by (simp add: hello_def)
  have h3: "''hello'' \<noteq> []" by simp
  from inbound_message_gets_no_completion[OF h1 h2 h3, of env_accepting upstream_ahoy parseFloat_table
      "TelegramBot good_token" "(''m1'', 5000)" "(''m2'', 5001)"] h1 h2
  show ?thesis by (simp add: live_state_eq hello_def)
qed

end
